theory Spec2Isabelle
  imports Main
begin

section \<open>Data model of \<open>src/server.ts\<close>\<close>

text \<open>
  The three interfaces of the server. \<open>data: any\<close> is a type parameter \<open>'d\<close>;
  \<open>retries\<close> and the Unix-millisecond timestamps are natural numbers (they only
  ever count up from \<open>0\<close>, far below the range where a JS number loses precision).
  Two interfaces have a field \<open>event\<close>, so that field is always written with its
  record's name.
\<close>

record 'd WebhookPayload =
  event :: string
  data :: 'd

record 'd WebhookQueueItem =
  payload :: "'d WebhookPayload"
  retries :: nat
  addedAt :: nat

datatype status_t = success | failed

record ProcessedEvent =
  event :: string
  status :: status_t
  timestamp :: nat

text \<open>
  The lines \<open>processQueue\<close> writes with \<open>console.log\<close> and \<open>console.error\<close>, in the
  order written: the attempt line of the \<open>try\<close> block, the failure line of the
  \<open>catch\<close> block with the incremented counter, and the drop line with the payload.
\<close>

datatype 'd console_line =
  Processing_event string
| Failed_to_process string nat
| Dropping_failed_webhook "'d WebhookPayload"

text \<open>
  The module-level stores \<open>queue\<close> and \<open>processedEvents\<close>, and the console, as one
  state that every operation takes and returns.
\<close>

record 'd state =
  queue :: "'d WebhookQueueItem list"
  processedEvents :: "ProcessedEvent list"
  console :: "'d console_line list"

definition initial :: "'d state" where
  "initial = \<lparr>queue = [], processedEvents = [], console = []\<rparr>"

definition MAX_RETRIES :: nat where
  "MAX_RETRIES = 3"

section \<open>Array operations used by the server\<close>

text \<open>
  \<open>a.unshift(x)\<close> puts \<open>x\<close> in front, \<open>a.pop()\<close> removes the last element (nothing
  on an empty array), \<open>a.push(x)\<close> appends, \<open>a.splice(start, count)\<close> (here \<open>splice_arr\<close>) removes
  \<open>count\<close> elements from position \<open>start\<close> (nothing when \<open>start\<close> is past the end),
  and \<open>a.slice(0, n)\<close> copies the first \<open>n\<close> elements.
\<close>

definition unshift :: "'a \<Rightarrow> 'a list \<Rightarrow> 'a list" where
  "unshift x a = x # a"

definition pop :: "'a list \<Rightarrow> 'a list" where
  "pop a = butlast a"

definition push :: "'a \<Rightarrow> 'a list \<Rightarrow> 'a list" where
  "push x a = a @ [x]"

definition splice_arr :: "nat \<Rightarrow> nat \<Rightarrow> 'a list \<Rightarrow> 'a list" where
  "splice_arr start count a = take start a @ drop (start + count) a"

definition slice0 :: "nat \<Rightarrow> 'a list \<Rightarrow> 'a list" where
  "slice0 n a = take n a"

section \<open>\<open>validateSignature\<close>\<close>

text \<open>
  \<open>jwt.verify(signature, SECRET)\<close> belongs to the \<open>jsonwebtoken\<close> library; the
  parameter \<open>jwt_verify\<close> says for which tokens it returns rather than throws (it
  depends on the secret and on the time of the call). The first argument of
  \<open>validateSignature\<close> is never read, so its type is left open. The empty string is
  the only falsy string.
\<close>

definition validateSignature :: "(string \<Rightarrow> bool) \<Rightarrow> 'p \<Rightarrow> string \<Rightarrow> bool" where
  "validateSignature jwt_verify raw_payload signature =
     (if signature = [] then False
      else if jwt_verify signature then True
      else False)"

section \<open>\<open>processQueue\<close>\<close>

text \<open>
  The callback handed to \<open>queue.forEach\<close>, called with the element \<open>item\<close> found at
  position \<open>index\<close>. The \<open>try\<close> block of the source holds, after its log line, the
  place where the webhook would be forwarded (\<open>await forwardToService(item.payload)\<close>,
  commented out); \<open>throws item index\<close> says whether that delivery raises, and the
  source as it stands is \<open>never_throws\<close>. \<open>now index\<close> is the value \<open>Date.now()\<close>
  returns inside this call.

  \<open>item.retries++\<close> mutates the object that sits in the array at \<open>index\<close>, which is
  the update of the queue at that position. Only the success branch trims the
  history after its \<open>unshift\<close>; the \<open>catch\<close> branch has no \<open>pop\<close>.
\<close>

definition never_throws :: "'d WebhookQueueItem \<Rightarrow> nat \<Rightarrow> bool" where
  "never_throws item index = False"

definition callback ::
  "('d WebhookQueueItem \<Rightarrow> nat \<Rightarrow> bool) \<Rightarrow> (nat \<Rightarrow> nat) \<Rightarrow>
   'd WebhookQueueItem \<Rightarrow> nat \<Rightarrow> 'd state \<Rightarrow> 'd state" where
  "callback throws now item index st =
     (let st1 = st\<lparr>console := console st @
                  [Processing_event (WebhookPayload.event (payload item))]\<rparr>
      in if \<not> throws item index then
           (let h = unshift \<lparr>ProcessedEvent.event = WebhookPayload.event (payload item),
                              status = success, timestamp = now index\<rparr>
                            (processedEvents st1);
                h' = (if length h > 20 then pop h else h)
            in st1\<lparr>processedEvents := h', queue := splice_arr index 1 (queue st1)\<rparr>)
         else
           (let item' = item\<lparr>retries := retries item + 1\<rparr>;
                st2 = st1\<lparr>queue := (queue st1)[index := item'],
                          console := console st1 @
                            [Failed_to_process (WebhookPayload.event (payload item'))
                               (retries item')]\<rparr>
            in if retries item' \<ge> MAX_RETRIES then
                 st2\<lparr>console := console st2 @ [Dropping_failed_webhook (payload item')],
                     processedEvents :=
                       unshift \<lparr>ProcessedEvent.event = WebhookPayload.event (payload item'),
                                status = failed, timestamp = now index\<rparr>
                               (processedEvents st2),
                     queue := splice_arr index 1 (queue st2)\<rparr>
               else st2))"

text \<open>
  \<open>Array.prototype.forEach\<close> reads the length once, then walks \<open>k = 0, 1, ...\<close> up
  to that length and calls the callback on the element at \<open>k\<close> of the array as it
  is at that moment, passing over every \<open>k\<close> that the array no longer has. The first
  number counts the positions still to walk.
\<close>

fun forEach_loop ::
  "('d WebhookQueueItem \<Rightarrow> nat \<Rightarrow> 'd state \<Rightarrow> 'd state) \<Rightarrow> nat \<Rightarrow> nat \<Rightarrow> 'd state \<Rightarrow> 'd state"
where
  "forEach_loop f 0 k st = st"
| "forEach_loop f (Suc n) k st =
     forEach_loop f n (Suc k)
       (if k < length (queue st) then f (queue st ! k) k st else st)"

definition forEach ::
  "('d WebhookQueueItem \<Rightarrow> nat \<Rightarrow> 'd state \<Rightarrow> 'd state) \<Rightarrow> 'd state \<Rightarrow> 'd state" where
  "forEach f st = forEach_loop f (length (queue st)) 0 st"

definition processQueue ::
  "('d WebhookQueueItem \<Rightarrow> nat \<Rightarrow> bool) \<Rightarrow> (nat \<Rightarrow> nat) \<Rightarrow> 'd state \<Rightarrow> 'd state" where
  "processQueue throws now st = forEach (callback throws now) st"

section \<open>The handlers\<close>

text \<open>
  A request to \<open>POST /webhook\<close> as the handler sees it: Elysia has already checked
  the body against the route's schema (and answered 400 itself otherwise), so the body
  is a payload; the header \<open>x-signature\<close> may be absent. A response is the status
  code (200 unless the handler sets it) and the object returned.
\<close>

record 'd request =
  body :: "'d WebhookPayload"
  x_signature :: "string option"

datatype response_body =
  Error_body string
| Ok_body bool string

datatype response = Response nat response_body

text \<open>
  \<open>pushed_at\<close> is the \<open>Date.now()\<close> of the \<open>queue.push\<close>; the other parameters are
  those of \<open>validateSignature\<close> and \<open>processQueue\<close>. \<open>rawBody\<close> stands for
  \<open>JSON.stringify(body ?? {})\<close>, which \<open>validateSignature\<close> never reads.
\<close>

definition webhook ::
  "(string \<Rightarrow> bool) \<Rightarrow> ('d WebhookQueueItem \<Rightarrow> nat \<Rightarrow> bool) \<Rightarrow> nat \<Rightarrow> (nat \<Rightarrow> nat) \<Rightarrow>
   'd request \<Rightarrow> 'd state \<Rightarrow> response \<times> 'd state" where
  "webhook jwt_verify throws pushed_at now req st =
     (let signature = (case x_signature req of None \<Rightarrow> [] | Some s \<Rightarrow> s);
          rawBody = body req
      in if \<not> validateSignature jwt_verify rawBody signature then
           (Response 401 (Error_body ''Invalid signature''), st)
         else
           (let st1 = st\<lparr>queue := push \<lparr>payload = body req, retries = 0,
                                         addedAt = pushed_at\<rparr> (queue st)\<rparr>;
                st2 = processQueue throws now st1
            in (Response 200 (Ok_body True ''Webhook received and processed''), st2)))"

text \<open>The object \<open>GET /queue-status\<close> returns; an entry of \<open>items\<close> is the pair of
  the item's event and its retry count.\<close>

record queue_status_response =
  queueLength :: nat
  processedCount :: nat
  maxRetries :: nat
  items :: "(string \<times> nat) list"
  recentEvents :: "ProcessedEvent list"

definition queue_status :: "'d state \<Rightarrow> queue_status_response \<times> 'd state" where
  "queue_status st =
     (\<lparr>queueLength = length (queue st),
       processedCount = length (processedEvents st),
       maxRetries = MAX_RETRIES,
       items = map (\<lambda>item. (WebhookPayload.event (payload item), retries item)) (queue st),
       recentEvents = slice0 10 (processedEvents st)\<rparr>,
      st)"

section \<open>Runs of the server\<close>

text \<open>
  Several passes one after the other, each with its own deliveries and clock.
\<close>

fun passes ::
  "(('d WebhookQueueItem \<Rightarrow> nat \<Rightarrow> bool) \<times> (nat \<Rightarrow> nat)) list \<Rightarrow> 'd state \<Rightarrow> 'd state" where
  "passes [] st = st"
| "passes ((throws, now) # ps) st = passes ps (processQueue throws now st)"

text \<open>
  One \<open>POST /webhook\<close> call with everything its handler reads from outside the
  state, and the state after a list of such calls handled one after the other (a
  handler runs to completion before the next one starts). \<open>signature_of\<close> is the
  handler's \<open>headers["x-signature"] ?? ""\<close>, and a call is \<open>accepted\<close> when its
  signature validates.
\<close>

record 'd call =
  c_jwt_verify :: "string \<Rightarrow> bool"
  c_throws :: "'d WebhookQueueItem \<Rightarrow> nat \<Rightarrow> bool"
  c_pushed_at :: nat
  c_now :: "nat \<Rightarrow> nat"
  c_request :: "'d request"

definition handle :: "'d call \<Rightarrow> 'd state \<Rightarrow> response \<times> 'd state" where
  "handle c st =
     webhook (c_jwt_verify c) (c_throws c) (c_pushed_at c) (c_now c) (c_request c) st"

fun serve :: "'d call list \<Rightarrow> 'd state \<Rightarrow> 'd state" where
  "serve [] st = st"
| "serve (c # cs) st = serve cs (snd (handle c st))"

definition signature_of :: "'d request \<Rightarrow> string" where
  "signature_of req = (case x_signature req of None \<Rightarrow> [] | Some s \<Rightarrow> s)"

definition accepted :: "'d call \<Rightarrow> bool" where
  "accepted c =
     validateSignature (c_jwt_verify c) (body (c_request c)) (signature_of (c_request c))"

text \<open>The history entry the success branch writes for a call whose own item is
  the only one in the queue (it is then visited at index \<open>0\<close>).\<close>

definition outcome :: "'d call \<Rightarrow> ProcessedEvent" where
  "outcome c =
     \<lparr>ProcessedEvent.event = WebhookPayload.event (body (c_request c)),
      status = success, timestamp = c_now c 0\<rparr>"

text \<open>
  The states of the server as the source has it (no delivery ever raises) between
  two requests: the state at start-up, and the state any handler leaves behind.
\<close>

inductive reachable :: "'d state \<Rightarrow> bool" where
  at_start: "reachable initial"
| after_webhook:
    "reachable st \<Longrightarrow> reachable (snd (webhook jwt_verify never_throws pushed_at now req st))"
| after_queue_status:
    "reachable st \<Longrightarrow> reachable (snd (queue_status st))"

text \<open>
  The states the same server goes through inside an accepted \<open>POST /webhook\<close>:
  the state right after \<open>queue.push\<close>, and the state after any call of the callback
  on an element the queue has at that moment. The walk of \<open>forEach\<close> makes only such
  calls, whatever the positions it reaches.
\<close>

inductive inside_webhook :: "'d state \<Rightarrow> bool" where
  pushed:
    "reachable st \<Longrightarrow> validateSignature jwt_verify (body req) (signature_of req) \<Longrightarrow>
     inside_webhook
       (st\<lparr>queue := push \<lparr>payload = body req, retries = 0, addedAt = pushed_at\<rparr>
                        (queue st)\<rparr>)"
| visited:
    "inside_webhook st \<Longrightarrow> k < length (queue st) \<Longrightarrow>
     inside_webhook (callback never_throws now (queue st ! k) k st)"

text \<open>The number of delivery attempts made so far: every call of the callback
  starts with the line \<open>Processing event\<close>, and nothing else writes that line.\<close>

definition attempts :: "'d state \<Rightarrow> nat" where
  "attempts st =
     length (filter (\<lambda>l. case l of Processing_event e \<Rightarrow> True | _ \<Rightarrow> False) (console st))"

text \<open>What a pass leaves of a queue whose deliveries all succeed: every second
  element (the second, the fourth, ...).\<close>

fun every_second :: "'a list \<Rightarrow> 'a list" where
  "every_second (x # y # zs) = y # every_second zs"
| "every_second zs = []"

text \<open>Two concrete calls with a signature that verifies, for an event named \<open>e\<close>:
  one whose deliveries all raise, and one of the server as the source has it.\<close>

definition failing_call :: "string \<Rightarrow> unit call" where
  "failing_call e =
     \<lparr>c_jwt_verify = (\<lambda>s. True), c_throws = (\<lambda>item index. True),
      c_pushed_at = 1, c_now = (\<lambda>k. 2),
      c_request = \<lparr>body = \<lparr>WebhookPayload.event = e, data = ()\<rparr>,
                   x_signature = Some ''t''\<rparr>\<rparr>"

definition good_call :: "string \<Rightarrow> unit call" where
  "good_call e =
     \<lparr>c_jwt_verify = (\<lambda>s. True), c_throws = never_throws,
      c_pushed_at = 1, c_now = (\<lambda>k. 2),
      c_request = \<lparr>body = \<lparr>WebhookPayload.event = e, data = ()\<rparr>,
                   x_signature = Some ''t''\<rparr>\<rparr>"

definition fresh_item :: "string \<Rightarrow> unit WebhookQueueItem" where
  "fresh_item e =
     \<lparr>payload = \<lparr>WebhookPayload.event = e, data = ()\<rparr>, retries = 0, addedAt = 1\<rparr>"



section \<open>The two branches of the callback\<close>

lemma callback_success:
  "\<not> throws item index \<Longrightarrow>
   callback throws now item index st =
     st\<lparr>console := console st @ [Processing_event (WebhookPayload.event (payload item))],
        processedEvents :=
          (if length (processedEvents st) \<ge> 20
           then butlast (\<lparr>ProcessedEvent.event = WebhookPayload.event (payload item),
                   status = success, timestamp = now index\<rparr> # processedEvents st)
           else \<lparr>ProcessedEvent.event = WebhookPayload.event (payload item),
                   status = success, timestamp = now index\<rparr> # processedEvents st),
        queue := take index (queue st) @ drop (Suc index) (queue st)\<rparr>"
  by (simp add: callback_def unshift_def pop_def splice_arr_def Let_def)

lemma callback_failure:
  "throws item index \<Longrightarrow>
   callback throws now item index st =
     (if retries item + 1 \<ge> 3 then
        st\<lparr>console := console st @
               [Processing_event (WebhookPayload.event (payload item)),
                Failed_to_process (WebhookPayload.event (payload item)) (retries item + 1),
                Dropping_failed_webhook (payload item)],
           processedEvents :=
             \<lparr>ProcessedEvent.event = WebhookPayload.event (payload item),
              status = failed, timestamp = now index\<rparr> # processedEvents st,
           queue := take index (queue st) @ drop (Suc index) (queue st)\<rparr>
      else
        st\<lparr>console := console st @
               [Processing_event (WebhookPayload.event (payload item)),
                Failed_to_process (WebhookPayload.event (payload item)) (retries item + 1)],
           queue := (queue st)[index := item\<lparr>retries := retries item + 1\<rparr>]\<rparr>)"
  by (simp add: callback_def unshift_def pop_def splice_arr_def Let_def MAX_RETRIES_def)

text \<open>A successful record keeps a history within its 20 entries. The record of a
  dropped item, which only a raising delivery leads to, makes the history one
  longer: the \<open>catch\<close> branch has no \<open>pop\<close>.\<close>

lemma callback_success_length:
  "\<not> throws item index \<Longrightarrow> length (processedEvents st) \<le> 20 \<Longrightarrow>
   length (processedEvents (callback throws now item index st)) \<le> 20"
  by (simp add: callback_success)

lemma callback_drop_length:
  "throws item index \<Longrightarrow> retries item + 1 \<ge> MAX_RETRIES \<Longrightarrow>
   length (processedEvents (callback throws now item index st)) =
     Suc (length (processedEvents st))"
  by (simp add: callback_failure MAX_RETRIES_def)

section \<open>Passes\<close>

lemma processQueue_single:
  "queue st = [item] \<Longrightarrow> processQueue throws now st = callback throws now item 0 st"
  by (simp add: processQueue_def forEach_def)

lemma processQueue_empty:
  "queue st = [] \<Longrightarrow> processQueue throws now st = st"
  by (simp add: processQueue_def forEach_def)

lemma passes_empty_queue: "queue st = [] \<Longrightarrow> passes ps st = st"
  by (induction ps arbitrary: st) (auto simp: processQueue_empty)

lemma forEach_loop_past_end:
  "length (queue st) \<le> k \<Longrightarrow> forEach_loop f n k st = st"
  by (induction n arbitrary: k) auto

text \<open>
  The walk at position \<open>k\<close>, with \<open>rest\<close> the part of the queue from \<open>k\<close> on and all
  deliveries succeeding: the element at \<open>k\<close> is removed, its successor moves to \<open>k\<close>,
  and the walk goes on at \<open>k + 1\<close>, past that successor.
\<close>

lemma forEach_loop_never_throws:
  "queue st = pre @ rest \<Longrightarrow> length pre = k \<Longrightarrow> length rest \<le> n \<Longrightarrow>
   queue (forEach_loop (callback never_throws now) n k st) = pre @ every_second rest \<and>
   attempts (forEach_loop (callback never_throws now) n k st) =
     attempts st + (length rest + 1) div 2"
proof (induction n arbitrary: k pre rest st)
  case 0
  then show ?case by simp
next
  case (Suc n)
  show ?case
  proof (cases rest)
    case Nil
    then show ?thesis using Suc.prems by (simp add: forEach_loop_past_end)
  next
    case (Cons x rest')
    let ?st1 = "callback never_throws now x k st"
    have nt: "\<not> never_throws x k" by (simp add: never_throws_def)
    have q1: "queue ?st1 = pre @ rest'"
      using Suc.prems Cons by (simp add: callback_success[of never_throws, OF nt])
    have a1: "attempts ?st1 = attempts st + 1"
      by (simp add: callback_success[of never_throws, OF nt] attempts_def)
    have x: "queue st ! k = x" "k < length (queue st)"
      using Suc.prems Cons by auto
    have step: "forEach_loop (callback never_throws now) (Suc n) k st =
                forEach_loop (callback never_throws now) n (Suc k) ?st1"
      using x by simp
    show ?thesis
    proof (cases rest')
      case Nil
      then have "length (queue ?st1) \<le> Suc k" using q1 Suc.prems by simp
      then show ?thesis
        using q1 a1 Nil Cons by (simp add: step forEach_loop_past_end del: forEach_loop.simps)
    next
      case (Cons y zs)
      have q: "queue ?st1 = (pre @ [y]) @ zs" using q1 Cons by simp
      have l: "length (pre @ [y]) = Suc k" using Suc.prems by simp
      have n: "length zs \<le> n" using Suc.prems \<open>rest = x # rest'\<close> Cons by simp
      from Suc.IH[OF q l n] show ?thesis
        using a1 Cons \<open>rest = x # rest'\<close> by (simp add: step del: forEach_loop.simps)
    qed
  qed
qed

text \<open>So on a queue of several items a pass whose deliveries all succeed attempts
  only every other item and leaves the others in the queue untouched. The server
  never starts a pass on such a queue: the queue is empty whenever a handler starts
  (\<open>reachable_invariant\<close> below), and the pass runs right after the one \<open>push\<close>.\<close>

lemma processQueue_never_throws:
  "queue (processQueue never_throws now st) = every_second (queue st) \<and>
   attempts (processQueue never_throws now st) = attempts st + (length (queue st) + 1) div 2"
  using forEach_loop_never_throws[of st "[]" "queue st" 0 "length (queue st)" now]
  by (simp add: processQueue_def forEach_def)

lemma passes_failing_general:
  "queue st = [item] \<Longrightarrow> retries item < 3 \<Longrightarrow>
   \<forall>p\<in>set ps. \<forall>it k. fst p it k \<Longrightarrow>
   (if retries item + length ps < 3 then
      queue (passes ps st) = [item\<lparr>retries := retries item + length ps\<rparr>] \<and>
      processedEvents (passes ps st) = processedEvents st \<and>
      attempts (passes ps st) = attempts st + length ps
    else
      queue (passes ps st) = [] \<and>
      processedEvents (passes ps st) =
        \<lparr>ProcessedEvent.event = WebhookPayload.event (payload item), status = failed,
         timestamp = snd (ps ! (2 - retries item)) 0\<rparr> # processedEvents st \<and>
      attempts (passes ps st) = attempts st + (3 - retries item))"
proof (induction ps arbitrary: st item)
  case Nil
  then show ?case by simp
next
  case (Cons p ps)
  obtain throws now where p: "p = (throws, now)" by (cases p)
  from Cons.prems p have th: "throws item 0" by simp
  have step: "processQueue throws now st = callback throws now item 0 st"
    using Cons.prems(1) by (rule processQueue_single)
  show ?case
  proof (cases "retries item + 1 \<ge> 3")
    case True
    then have r2: "retries item = 2" using Cons.prems(2) by simp
    have q: "queue (callback throws now item 0 st) = []"
      using True th Cons.prems(1) by (simp add: callback_failure)
    show ?thesis
      using True th Cons.prems(1) r2 passes_empty_queue[OF q]
      by (simp add: p step callback_failure attempts_def)
  next
    case False
    let ?st1 = "callback throws now item 0 st"
    let ?item1 = "item\<lparr>retries := retries item + 1\<rparr>"
    have q: "queue ?st1 = [?item1]"
      using False th Cons.prems(1) by (simp add: callback_failure)
    have r: "retries ?item1 < 3" using False by simp
    have a: "\<forall>p\<in>set ps. \<forall>it k. fst p it k" using Cons.prems(3) by simp
    have pe: "processedEvents ?st1 = processedEvents st" "attempts ?st1 = attempts st + 1"
      using False th by (simp_all add: callback_failure attempts_def)
    from Cons.IH[OF q r a] show ?thesis
      using False pe by (auto simp: p step nth_Cons' split: if_splits)
  qed
qed

section \<open>The webhook handler\<close>

lemma webhook_rejected:
  "\<not> validateSignature jwt_verify (body req) (signature_of req) \<Longrightarrow>
   webhook jwt_verify throws pushed_at now req st =
     (Response 401 (Error_body ''Invalid signature''), st)"
  by (simp add: webhook_def signature_of_def)

lemma webhook_accepted:
  "validateSignature jwt_verify (body req) (signature_of req) \<Longrightarrow>
   webhook jwt_verify throws pushed_at now req st =
     (Response 200 (Ok_body True ''Webhook received and processed''),
      processQueue throws now
        (st\<lparr>queue := queue st @ [\<lparr>payload = body req, retries = 0, addedAt = pushed_at\<rparr>]\<rparr>))"
  by (simp add: webhook_def signature_of_def push_def)

lemma webhook_reference_state:
  assumes "queue st = []"
  shows "snd (webhook jwt_verify never_throws pushed_at now req st) =
     (if validateSignature jwt_verify (body req) (signature_of req) then
        st\<lparr>console := console st @ [Processing_event (WebhookPayload.event (body req))],
           processedEvents :=
             (if length (processedEvents st) \<ge> 20
              then butlast (\<lparr>ProcessedEvent.event = WebhookPayload.event (body req),
                      status = success, timestamp = now 0\<rparr> # processedEvents st)
              else \<lparr>ProcessedEvent.event = WebhookPayload.event (body req),
                      status = success, timestamp = now 0\<rparr> # processedEvents st),
           queue := []\<rparr>
      else st)"
  using assms
  by (simp add: webhook_accepted webhook_rejected processQueue_single callback_success
      never_throws_def)

section \<open>Invariants of the server as the source has it\<close>

lemma reachable_invariant:
  "reachable st \<Longrightarrow>
     queue st = [] \<and> length (processedEvents st) \<le> 20 \<and>
     (\<forall>e\<in>set (processedEvents st). status e = success) \<and>
     (\<forall>l\<in>set (console st). \<exists>e. l = Processing_event e)"
proof (induction rule: reachable.induct)
  case at_start
  then show ?case by (simp add: initial_def)
next
  case (after_webhook st jwt_verify pushed_at now req)
  then have q: "queue st = []" by simp
  show ?case
    using after_webhook.IH
    by (auto simp: webhook_reference_state[OF q] dest: in_set_butlastD)
next
  case (after_queue_status st)
  then show ?case by (simp add: queue_status_def)
qed

lemma inside_webhook_invariant:
  "inside_webhook st \<Longrightarrow>
     length (queue st) \<le> 1 \<and> (\<forall>item\<in>set (queue st). retries item = 0) \<and>
     length (processedEvents st) \<le> 20 \<and>
     (\<forall>e\<in>set (processedEvents st). status e = success) \<and>
     (\<forall>l\<in>set (console st). \<exists>e. l = Processing_event e)"
proof (induction rule: inside_webhook.induct)
  case (pushed st jwt_verify req pushed_at)
  then show ?case using reachable_invariant[of st] by (simp add: push_def)
next
  case (visited st k now)
  have nt: "\<not> never_throws (queue st ! k) k" by (simp add: never_throws_def)
  have "set (take k (queue st) @ drop (Suc k) (queue st)) \<subseteq> set (queue st)"
    using set_take_subset set_drop_subset by fastforce
  then show ?case
    using visited
    by (auto simp: callback_success[of never_throws, OF nt] dest: in_set_butlastD)
qed

text \<open>Every state of a pass that starts inside the handler is one of these states.\<close>

lemma inside_webhook_forEach_loop:
  "inside_webhook st \<Longrightarrow> inside_webhook (forEach_loop (callback never_throws now) n k st)"
  by (induction n arbitrary: k st) (auto intro: inside_webhook.visited)

section \<open>Lists of calls\<close>

lemma take_append_take: "take n (xs @ take n ys) = take n (xs @ ys)"
  by (simp add: min_def)

lemma handle_reference_state:
  assumes "queue st = []" "accepted c" "c_throws c = never_throws"
    "length (processedEvents st) \<le> 20"
  shows "queue (snd (handle c st)) = []"
    and "processedEvents (snd (handle c st)) = take 20 (outcome c # processedEvents st)"
  using assms
  by (simp_all add: handle_def accepted_def webhook_reference_state outcome_def
      butlast_conv_take)

lemma serve_reference:
  "queue st = [] \<Longrightarrow> length (processedEvents st) \<le> 20 \<Longrightarrow>
   \<forall>c\<in>set cs. accepted c \<and> c_throws c = never_throws \<Longrightarrow>
   queue (serve cs st) = [] \<and>
   processedEvents (serve cs st) = take 20 (rev (map outcome cs) @ processedEvents st)"
proof (induction cs arbitrary: st)
  case Nil
  then show ?case by simp
next
  case (Cons c cs)
  let ?st1 = "snd (handle c st)"
  have c: "accepted c" "c_throws c = never_throws" using Cons.prems(3) by simp_all
  have q: "queue ?st1 = []"
    and h: "processedEvents ?st1 = take 20 (outcome c # processedEvents st)"
    using handle_reference_state[OF Cons.prems(1) c Cons.prems(2)] by simp_all
  have l: "length (processedEvents ?st1) \<le> 20" by (simp add: h)
  have r: "\<forall>c\<in>set cs. accepted c \<and> c_throws c = never_throws" using Cons.prems(3) by simp
  have "processedEvents (serve cs ?st1) =
          take 20 (rev (map outcome cs) @ take 20 (outcome c # processedEvents st))"
    using Cons.IH[OF q l r] by (simp add: h)
  also have "\<dots> = take 20 (rev (map outcome cs) @ outcome c # processedEvents st)"
    by (rule take_append_take)
  finally show ?case using Cons.IH[OF q l r] by simp
qed

lemma reachable_serve:
  "reachable st \<Longrightarrow> \<forall>c\<in>set cs. c_throws c = never_throws \<Longrightarrow> reachable (serve cs st)"
proof (induction cs arbitrary: st)
  case Nil
  then show ?case by simp
next
  case (Cons c cs)
  have "reachable (snd (handle c st))"
    using Cons.prems reachable.after_webhook[OF Cons.prems(1)] by (simp add: handle_def)
  then show ?case using Cons by simp
qed

lemma good_call_accepted: "accepted (good_call e) \<and> c_throws (good_call e) = never_throws"
  by (simp add: good_call_def accepted_def signature_of_def validateSignature_def)

section \<open>The claims\<close>





text \<open>
  Claim C3: an item whose delivery always fails is attempted exactly
  \<open>MAX_RETRIES = 3\<close> times over repeated passes; the failed attempt that brings its
  counter to 3 removes it from the queue and records one \<open>failed\<close> outcome; with
  fewer failures it stays in the queue and nothing is recorded for it.

  First part: a fresh item alone in the queue and any number of passes in which
  every delivery raises. The attempts made are the passes run, up to three; before
  the third pass the item is still queued with its counter at the number of passes
  and the history is as it was; from the third pass on the queue is empty and the
  history has gained exactly the \<open>failed\<close> outcome written by the third pass.
  Second part: one failing visit of the item at any position of any queue. If the
  incremented counter reaches 3 the item is taken out at its position and one
  \<open>failed\<close> outcome is put in front of the history; otherwise only its counter
  changes and the history is as it was.
\<close>

theorem always_failing_item_three_attempts:
  "(queue st = [item] \<and> retries item = 0 \<and> (\<forall>p\<in>set ps. \<forall>it k. fst p it k) \<longrightarrow>
      attempts (passes ps st) = attempts st + min (length ps) MAX_RETRIES \<and>
      (length ps < MAX_RETRIES \<longrightarrow>
         queue (passes ps st) = [item\<lparr>retries := length ps\<rparr>] \<and>
         processedEvents (passes ps st) = processedEvents st) \<and>
      (length ps \<ge> MAX_RETRIES \<longrightarrow>
         queue (passes ps st) = [] \<and>
         processedEvents (passes ps st) =
           \<lparr>ProcessedEvent.event = WebhookPayload.event (payload item), status = failed,
            timestamp = snd (ps ! 2) 0\<rparr> # processedEvents st)) \<and>
   (index < length (queue st') \<and> throws (queue st' ! index) index \<longrightarrow>
      (retries (queue st' ! index) + 1 \<ge> MAX_RETRIES \<longrightarrow>
         queue (callback throws now (queue st' ! index) index st') =
           take index (queue st') @ drop (Suc index) (queue st') \<and>
         processedEvents (callback throws now (queue st' ! index) index st') =
           \<lparr>ProcessedEvent.event = WebhookPayload.event (payload (queue st' ! index)),
            status = failed, timestamp = now index\<rparr> # processedEvents st') \<and>
      (retries (queue st' ! index) + 1 < MAX_RETRIES \<longrightarrow>
         queue (callback throws now (queue st' ! index) index st') =
           (queue st')[index :=
              (queue st' ! index)\<lparr>retries := retries (queue st' ! index) + 1\<rparr>] \<and>
         processedEvents (callback throws now (queue st' ! index) index st') =
           processedEvents st'))"
proof -
  have alone: "attempts (passes ps st) = attempts st + min (length ps) MAX_RETRIES \<and>
      (length ps < MAX_RETRIES \<longrightarrow>
         queue (passes ps st) = [item\<lparr>retries := length ps\<rparr>] \<and>
         processedEvents (passes ps st) = processedEvents st) \<and>
      (length ps \<ge> MAX_RETRIES \<longrightarrow>
         queue (passes ps st) = [] \<and>
         processedEvents (passes ps st) =
           \<lparr>ProcessedEvent.event = WebhookPayload.event (payload item), status = failed,
            timestamp = snd (ps ! 2) 0\<rparr> # processedEvents st)"
    if q: "queue st = [item]" and r: "retries item = 0"
      and t: "\<forall>p\<in>set ps. \<forall>it k. fst p it k"
    using passes_failing_general[OF q _ t] r
    by (auto simp: MAX_RETRIES_def split: if_splits)
  have visit: "(retries (queue st' ! index) + 1 \<ge> MAX_RETRIES \<longrightarrow>
         queue (callback throws now (queue st' ! index) index st') =
           take index (queue st') @ drop (Suc index) (queue st') \<and>
         processedEvents (callback throws now (queue st' ! index) index st') =
           \<lparr>ProcessedEvent.event = WebhookPayload.event (payload (queue st' ! index)),
            status = failed, timestamp = now index\<rparr> # processedEvents st') \<and>
      (retries (queue st' ! index) + 1 < MAX_RETRIES \<longrightarrow>
         queue (callback throws now (queue st' ! index) index st') =
           (queue st')[index :=
              (queue st' ! index)\<lparr>retries := retries (queue st' ! index) + 1\<rparr>] \<and>
         processedEvents (callback throws now (queue st' ! index) index st') =
           processedEvents st')"
    if "throws (queue st' ! index) index"
    using that by (simp add: callback_failure MAX_RETRIES_def)
  show ?thesis using alone visit by blast
qed

theorem always_failing_item_three_attempts_witness:
  "queue \<lparr>queue = [fresh_item ''a''], processedEvents = [], console = []\<rparr>
     = [fresh_item ''a''] \<and>
   retries (fresh_item ''a'') = 0 \<and>
   queue (passes (replicate 2 (\<lambda>it k. True, \<lambda>k. 5))
      \<lparr>queue = [fresh_item ''a''], processedEvents = [], console = []\<rparr>)
     = [(fresh_item ''a'')\<lparr>retries := 2\<rparr>] \<and>
   processedEvents (passes (replicate 2 (\<lambda>it k. True, \<lambda>k. 5))
      \<lparr>queue = [fresh_item ''a''], processedEvents = [], console = []\<rparr>) = [] \<and>
   attempts (passes (replicate 2 (\<lambda>it k. True, \<lambda>k. 5))
      \<lparr>queue = [fresh_item ''a''], processedEvents = [], console = []\<rparr>) = 2 \<and>
   queue (passes (replicate 4 (\<lambda>it k. True, \<lambda>k. 5))
      \<lparr>queue = [fresh_item ''a''], processedEvents = [], console = []\<rparr>) = [] \<and>
   processedEvents (passes (replicate 4 (\<lambda>it k. True, \<lambda>k. 5))
      \<lparr>queue = [fresh_item ''a''], processedEvents = [], console = []\<rparr>)
     = [\<lparr>ProcessedEvent.event = ''a'', status = failed, timestamp = 5\<rparr>] \<and>
   attempts (passes (replicate 4 (\<lambda>it k. True, \<lambda>k. 5))
      \<lparr>queue = [fresh_item ''a''], processedEvents = [], console = []\<rparr>) = 3 \<and>
   queue (callback (\<lambda>it k. True) (\<lambda>k. 5) ((fresh_item ''b'')\<lparr>retries := 2\<rparr>) 1
      \<lparr>queue = [fresh_item ''a'', (fresh_item ''b'')\<lparr>retries := 2\<rparr>],
       processedEvents = [], console = []\<rparr>) = [fresh_item ''a''] \<and>
   processedEvents (callback (\<lambda>it k. True) (\<lambda>k. 5) ((fresh_item ''b'')\<lparr>retries := 2\<rparr>) 1
      \<lparr>queue = [fresh_item ''a'', (fresh_item ''b'')\<lparr>retries := 2\<rparr>],
       processedEvents = [], console = []\<rparr>)
     = [\<lparr>ProcessedEvent.event = ''b'', status = failed, timestamp = 5\<rparr>] \<and>
   queue (callback (\<lambda>it k. True) (\<lambda>k. 5) (fresh_item ''a'') 0
      \<lparr>queue = [fresh_item ''a'', (fresh_item ''b'')\<lparr>retries := 2\<rparr>],
       processedEvents = [], console = []\<rparr>)
     = [(fresh_item ''a'')\<lparr>retries := 1\<rparr>, (fresh_item ''b'')\<lparr>retries := 2\<rparr>] \<and>
   processedEvents (callback (\<lambda>it k. True) (\<lambda>k. 5) (fresh_item ''a'') 0
      \<lparr>queue = [fresh_item ''a'', (fresh_item ''b'')\<lparr>retries := 2\<rparr>],
       processedEvents = [], console = []\<rparr>) = []"
proof -
  let ?st = "\<lparr>queue = [fresh_item ''a''], processedEvents = [],
              console = [] :: unit console_line list\<rparr>"
  let ?st' = "\<lparr>queue = [fresh_item ''a'', (fresh_item ''b'')\<lparr>retries := 2\<rparr>],
               processedEvents = [], console = [] :: unit console_line list\<rparr>"
  let ?t = "\<lambda>(it :: unit WebhookQueueItem) (k :: nat). True"
  let ?n = "\<lambda>k :: nat. 5 :: nat"
  have q: "queue ?st = [fresh_item ''a'']" by simp
  have r: "retries (fresh_item ''a'') = 0" by (simp add: fresh_item_def)
  have t: "\<forall>p\<in>set (replicate n (?t, ?n)). \<forall>it k. fst p it k" for n by simp
  have a: "attempts ?st = 0" by (simp add: attempts_def)
  have two: "queue (passes (replicate 2 (?t, ?n)) ?st) = [(fresh_item ''a'')\<lparr>retries := 2\<rparr>] \<and>
      processedEvents (passes (replicate 2 (?t, ?n)) ?st) = [] \<and>
      attempts (passes (replicate 2 (?t, ?n)) ?st) = 2"
    using always_failing_item_three_attempts[where st = ?st and item = "fresh_item ''a''"
        and ps = "replicate 2 (?t, ?n)", THEN conjunct1] q r t[of 2] a
    by (simp add: MAX_RETRIES_def)
  have four: "queue (passes (replicate 4 (?t, ?n)) ?st) = [] \<and>
      processedEvents (passes (replicate 4 (?t, ?n)) ?st)
        = [\<lparr>ProcessedEvent.event = ''a'', status = failed, timestamp = 5\<rparr>] \<and>
      attempts (passes (replicate 4 (?t, ?n)) ?st) = 3"
    using always_failing_item_three_attempts[where st = ?st and item = "fresh_item ''a''"
        and ps = "replicate 4 (?t, ?n)", THEN conjunct1] q r t[of 4] a
    by (simp add: MAX_RETRIES_def fresh_item_def)
  have drop: "queue (callback ?t ?n ((fresh_item ''b'')\<lparr>retries := 2\<rparr>) 1 ?st')
        = [fresh_item ''a''] \<and>
      processedEvents (callback ?t ?n ((fresh_item ''b'')\<lparr>retries := 2\<rparr>) 1 ?st')
        = [\<lparr>ProcessedEvent.event = ''b'', status = failed, timestamp = 5\<rparr>]"
    using always_failing_item_three_attempts[where st' = ?st' and index = 1
        and throws = ?t and now = ?n, THEN conjunct2]
    by (simp add: MAX_RETRIES_def fresh_item_def)
  have stay: "queue (callback ?t ?n (fresh_item ''a'') 0 ?st')
        = [(fresh_item ''a'')\<lparr>retries := 1\<rparr>, (fresh_item ''b'')\<lparr>retries := 2\<rparr>] \<and>
      processedEvents (callback ?t ?n (fresh_item ''a'') 0 ?st') = []"
    using always_failing_item_three_attempts[where st' = ?st' and index = 0
        and throws = ?t and now = ?n, THEN conjunct2]
    by (simp add: MAX_RETRIES_def fresh_item_def)
  show ?thesis using q r two four drop stay by blast
qed

text \<open>
  Claim C4: a \<open>POST /webhook\<close> request whose \<open>x-signature\<close> header is missing, or
  whose token fails JWT verification, is answered 401 with the body
  \<open>{error: "Invalid signature"}\<close>, and the queue and the history are left as they
  were: nothing is enqueued and no pass runs (the console gains no line either, the
  whole state is the same).
\<close>

theorem webhook_rejects_bad_signature:
  assumes "x_signature req = None \<or> (\<exists>s. x_signature req = Some s \<and> \<not> jwt_verify s)"
  shows "webhook jwt_verify throws pushed_at now req st =
           (Response 401 (Error_body ''Invalid signature''), st)"
  using assms by (auto simp: webhook_def validateSignature_def)

theorem webhook_rejects_bad_signature_witness:
  "x_signature \<lparr>body = \<lparr>WebhookPayload.event = ''user.created'', data = ()\<rparr>,
                x_signature = None\<rparr> = None \<and>
   webhook (\<lambda>s. True) never_throws 1 (\<lambda>k. 2)
     \<lparr>body = \<lparr>WebhookPayload.event = ''user.created'', data = ()\<rparr>, x_signature = None\<rparr>
     initial
   = (Response 401 (Error_body ''Invalid signature''), initial) \<and>
   x_signature \<lparr>body = \<lparr>WebhookPayload.event = ''user.created'', data = ()\<rparr>,
                x_signature = Some ''invalid-token''\<rparr> = Some ''invalid-token'' \<and>
   \<not> (\<lambda>s. s = ''good-token'') ''invalid-token'' \<and>
   webhook (\<lambda>s. s = ''good-token'') never_throws 1 (\<lambda>k. 2)
     \<lparr>body = \<lparr>WebhookPayload.event = ''user.created'', data = ()\<rparr>,
      x_signature = Some ''invalid-token''\<rparr>
     initial
   = (Response 401 (Error_body ''Invalid signature''), initial)"
proof -
  let ?r1 = "\<lparr>body = \<lparr>WebhookPayload.event = ''user.created'', data = ()\<rparr>,
              x_signature = None\<rparr>"
  let ?r2 = "\<lparr>body = \<lparr>WebhookPayload.event = ''user.created'', data = ()\<rparr>,
              x_signature = Some ''invalid-token''\<rparr>"
  have h1: "x_signature ?r1 = None \<or> (\<exists>s. x_signature ?r1 = Some s \<and> \<not> (\<lambda>s. True) s)"
    by simp
  have h2: "x_signature ?r2 = None \<or>
            (\<exists>s. x_signature ?r2 = Some s \<and> \<not> (\<lambda>s. s = ''good-token'') s)"
    by simp
  show ?thesis
    using webhook_rejects_bad_signature[of ?r1 "\<lambda>s. True", OF h1]
      webhook_rejects_bad_signature[of ?r2 "\<lambda>s. s = ''good-token''", OF h2]
    by simp
qed

text \<open>
  Claim C5: a \<open>POST /webhook\<close> request with a valid signature (its body has passed
  the schema) is answered 200 with \<open>ok: true\<close> whatever the deliveries of the pass it
  triggers do; a failed delivery does not show in the response, and in the history
  it shows at most as one \<open>failed\<close> outcome put in front.
\<close>

theorem webhook_ok_whatever_delivery_does:
  assumes "validateSignature jwt_verify (body req) (signature_of req)"
  shows "fst (webhook jwt_verify throws pushed_at now req st) =
           Response 200 (Ok_body True ''Webhook received and processed'') \<and>
    (throws item index \<longrightarrow>
       processedEvents (callback throws now item index st') = processedEvents st' \<or>
       processedEvents (callback throws now item index st') =
         \<lparr>ProcessedEvent.event = WebhookPayload.event (payload item), status = failed,
          timestamp = now index\<rparr> # processedEvents st')"
  using assms by (simp add: webhook_accepted callback_failure)

theorem webhook_ok_whatever_delivery_does_witness:
  "validateSignature (c_jwt_verify (failing_call ''a'')) (body (c_request (failing_call ''a'')))
     (signature_of (c_request (failing_call ''a''))) \<and>
   fst (webhook (c_jwt_verify (failing_call ''a'')) (\<lambda>item index. True) 1 (\<lambda>k. 2)
          (c_request (failing_call ''a''))
          \<lparr>queue = [(fresh_item ''b'')\<lparr>retries := 2\<rparr>], processedEvents = [], console = []\<rparr>)
     = Response 200 (Ok_body True ''Webhook received and processed'') \<and>
   processedEvents (callback (\<lambda>item index. True) (\<lambda>k. 2) ((fresh_item ''b'')\<lparr>retries := 2\<rparr>) 0
          \<lparr>queue = [(fresh_item ''b'')\<lparr>retries := 2\<rparr>], processedEvents = [], console = []\<rparr>)
     = [\<lparr>ProcessedEvent.event = ''b'', status = failed, timestamp = 2\<rparr>]"
proof -
  let ?c = "failing_call ''a''"
  let ?b = "(fresh_item ''b'')\<lparr>retries := 2\<rparr>"
  let ?st = "\<lparr>queue = [?b], processedEvents = [], console = [] :: unit console_line list\<rparr>"
  have h: "validateSignature (c_jwt_verify ?c) (body (c_request ?c)) (signature_of (c_request ?c))"
    by (simp add: failing_call_def signature_of_def validateSignature_def)
  have e: "processedEvents (callback (\<lambda>item index. True) (\<lambda>k. 2) ?b 0 ?st) \<noteq> processedEvents ?st"
    by (simp add: callback_def fresh_item_def MAX_RETRIES_def unshift_def Let_def)
  show ?thesis
    using h e
      webhook_ok_whatever_delivery_does[OF h, where throws = "\<lambda>item index. True"
        and item = ?b and index = 0 and now = "\<lambda>k. 2" and st' = ?st and pushed_at = 1
        and st = ?st]
    by (simp add: fresh_item_def)
qed

text \<open>
  Claim C6: in the server as the source has it the delivery never fails, so the
  \<open>catch\<close> branch is never entered: in every state between two requests and in
  every state inside a handler, every recorded outcome is a \<open>success\<close>, every item
  in the queue has \<open>retries = 0\<close>, and the console holds no failure or drop line.
\<close>

theorem reference_server_never_fails:
  assumes "reachable st \<or> inside_webhook st"
  shows "(\<forall>e\<in>set (processedEvents st). status e = success) \<and>
         (\<forall>item\<in>set (queue st). retries item = 0) \<and>
         (\<forall>l\<in>set (console st). \<exists>e. l = Processing_event e)"
  using assms reachable_invariant[of st] inside_webhook_invariant[of st] by auto


theorem reference_server_never_fails_witness:
  "reachable (serve [good_call ''a''] initial) \<and>
   \<lparr>ProcessedEvent.event = ''a'', status = success, timestamp = 2\<rparr>
     \<in> set (processedEvents (serve [good_call ''a''] initial)) \<and>
   status \<lparr>ProcessedEvent.event = ''a'', status = success, timestamp = 2\<rparr> = success \<and>
   Processing_event ''a'' \<in> set (console (serve [good_call ''a''] initial)) \<and>
   inside_webhook (initial\<lparr>queue := push (fresh_item ''a'') (queue initial)\<rparr>) \<and>
   fresh_item ''a'' \<in> set (queue (initial\<lparr>queue := push (fresh_item ''a'') (queue initial)\<rparr>)) \<and>
   retries (fresh_item ''a'') = 0"
proof -
  let ?st1 = "serve [good_call ''a''] initial"
  let ?st2 = "initial\<lparr>queue := push (fresh_item ''a'') (queue initial)\<rparr>"
  let ?e = "\<lparr>ProcessedEvent.event = ''a'', status = success, timestamp = 2\<rparr>"
  have r: "reachable ?st1"
    using reachable_serve[OF reachable.at_start, of "[good_call ''a'']"]
    by (simp add: good_call_def)
  have i: "inside_webhook ?st2"
    using inside_webhook.pushed[OF reachable.at_start, of "\<lambda>s. True"
        "c_request (good_call ''a'')" 1]
    by (simp add: good_call_def fresh_item_def signature_of_def validateSignature_def)
  have m1: "?e \<in> set (processedEvents ?st1)"
    using handle_reference_state(2)[of initial "good_call ''a''"] good_call_accepted[of "''a''"]
    by (simp add: initial_def outcome_def good_call_def)
  have m2: "fresh_item ''a'' \<in> set (queue ?st2)" by (simp add: push_def)
  have m3: "Processing_event ''a'' \<in> set (console ?st1)"
    using webhook_reference_state[of initial "\<lambda>s. True" 1 "\<lambda>k. 2" "c_request (good_call ''a'')"]
    by (simp add: initial_def good_call_def handle_def signature_of_def validateSignature_def)
  from reference_server_never_fails[OF disjI1, OF r] m1
  have s: "status ?e = success" by blast
  from reference_server_never_fails[OF disjI2, OF i] m2
  have z: "retries (fresh_item ''a'') = 0" by blast
  show ?thesis using r i m1 m2 m3 s z by blast
qed

text \<open>
  Claim C7: in every state of the server as the source has it the queue holds at
  most one item, and it is empty again when a successful \<open>/webhook\<close> handler
  returns. Between two requests the queue is empty; inside a handler, from the
  \<open>push\<close> on and through the pass, it holds at most the one item just pushed; and
  the state an accepted request leaves behind has an empty queue.
\<close>

theorem reference_queue_at_most_one:
  "(reachable st \<longrightarrow>
      queue st = [] \<and>
      (validateSignature jwt_verify (body req) (signature_of req) \<longrightarrow>
         queue (snd (webhook jwt_verify never_throws pushed_at now req st)) = [])) \<and>
   (inside_webhook st \<longrightarrow> length (queue st) \<le> 1)"
proof -
  have "queue (snd (webhook jwt_verify never_throws pushed_at now req st)) = []"
    if "reachable st"
    using reachable_invariant[OF reachable.after_webhook[OF that]] by simp
  then show ?thesis
    using reachable_invariant[of st] inside_webhook_invariant[of st] by blast
qed

theorem reference_queue_at_most_one_witness:
  "reachable (serve [good_call ''a''] initial) \<and>
   queue (serve [good_call ''a''] initial) = [] \<and>
   validateSignature (\<lambda>s. True) (body (c_request (good_call ''b'')))
     (signature_of (c_request (good_call ''b''))) \<and>
   queue (snd (webhook (\<lambda>s. True) never_throws 1 (\<lambda>k. 2) (c_request (good_call ''b''))
                 (serve [good_call ''a''] initial))) = [] \<and>
   inside_webhook (initial\<lparr>queue := push (fresh_item ''a'') (queue initial)\<rparr>) \<and>
   length (queue (initial\<lparr>queue := push (fresh_item ''a'') (queue initial)\<rparr>)) \<le> 1"
proof -
  let ?st1 = "serve [good_call ''a''] initial"
  let ?st2 = "initial\<lparr>queue := push (fresh_item ''a'') (queue initial)\<rparr>"
  let ?req = "c_request (good_call ''b'')"
  have r: "reachable ?st1"
    using reachable_serve[OF reachable.at_start, of "[good_call ''a'']"]
    by (simp add: good_call_def)
  have i: "inside_webhook ?st2"
    using inside_webhook.pushed[OF reachable.at_start, of "\<lambda>s. True"
        "c_request (good_call ''a'')" 1]
    by (simp add: good_call_def fresh_item_def signature_of_def validateSignature_def)
  have v: "validateSignature (\<lambda>s. True) (body ?req) (signature_of ?req)"
    by (simp add: good_call_def signature_of_def validateSignature_def)
  show ?thesis
    using r i v
      reference_queue_at_most_one[of ?st1 "\<lambda>s. True" ?req 1 "\<lambda>k. 2"]
      reference_queue_at_most_one[of ?st2 "\<lambda>s. True" ?req 1 "\<lambda>k. 2"]
    by blast
qed

text \<open>
  Claim C8: after 25 successes recorded into a history of capacity 20, the history
  holds exactly 20 entries, the 5 oldest are gone, and the entries are newest first.
  The 25 successes are 25 accepted webhooks of the server as the source has it, one
  after the other, starting in a state with an empty queue and a history within its
  capacity: the history is then the outcomes of the last 20 calls, the last call's
  first, and none of the first 5 calls' nor of the earlier entries.
\<close>

theorem twenty_five_successes_keep_newest_twenty:
  assumes "length cs = 25" and "\<forall>c\<in>set cs. accepted c \<and> c_throws c = never_throws"
    and "queue st = []" and "length (processedEvents st) \<le> 20"
  shows "length (processedEvents (serve cs st)) = 20 \<and>
         processedEvents (serve cs st) = rev (map outcome (drop 5 cs))"
proof -
  have "processedEvents (serve cs st) = take 20 (rev (map outcome cs) @ processedEvents st)"
    using serve_reference[OF assms(3,4,2)] by simp
  also have "\<dots> = take 20 (rev (map outcome cs))" using assms(1) by simp
  also have "\<dots> = rev (drop 5 (map outcome cs))" using assms(1) by (simp add: take_rev)
  finally show ?thesis using assms(1) by (simp add: drop_map)
qed

theorem twenty_five_successes_keep_newest_twenty_witness:
  "length (map (\<lambda>n. good_call (replicate n CHR ''x'')) [0..<25]) = 25 \<and>
   queue (initial :: unit state) = [] \<and>
   length (processedEvents (initial :: unit state)) \<le> 20 \<and>
   length (processedEvents
     (serve (map (\<lambda>n. good_call (replicate n CHR ''x'')) [0..<25]) initial)) = 20 \<and>
   processedEvents (serve (map (\<lambda>n. good_call (replicate n CHR ''x'')) [0..<25]) initial) =
     rev (map outcome (drop 5 (map (\<lambda>n. good_call (replicate n CHR ''x'')) [0..<25])))"
proof -
  let ?cs = "map (\<lambda>n. good_call (replicate n CHR ''x'')) [0..<25]"
  have l: "length ?cs = 25" by simp
  have a: "\<forall>c\<in>set ?cs. accepted c \<and> c_throws c = never_throws"
    using good_call_accepted by auto
  have q: "queue (initial :: unit state) = []" by (simp add: initial_def)
  have h: "length (processedEvents (initial :: unit state)) \<le> 20" by (simp add: initial_def)
  show ?thesis
    using l q h twenty_five_successes_keep_newest_twenty[OF l a q h] by blast
qed

text \<open>
  Claim C9: \<open>GET /queue-status\<close> leaves the queue and the history (the whole state)
  unchanged, and the \<open>recentEvents\<close> of its response are the first 10 entries of the
  newest-first history, so at most 10.
\<close>

theorem queue_status_reads_only:
  "snd (queue_status st) = st \<and>
   recentEvents (fst (queue_status st)) = take 10 (processedEvents st) \<and>
   length (recentEvents (fst (queue_status st))) \<le> 10"
  by (simp add: queue_status_def slice0_def)

text \<open>
  Claim C10: the \<open>processedCount\<close> of \<open>GET /queue-status\<close> is the number of history
  entries retained; in the server as the source has it that number never exceeds
  20, so after more than 20 outcomes it is 20 and not the number of events
  processed: after any list of accepted webhooks it is the smaller of their number
  and 20.
\<close>

theorem processedCount_is_retained_entries:
  "processedCount (fst (queue_status st)) = length (processedEvents st) \<and>
   (reachable st \<longrightarrow> processedCount (fst (queue_status st)) \<le> 20) \<and>
   ((\<forall>c\<in>set cs. accepted c \<and> c_throws c = never_throws) \<longrightarrow>
      processedCount (fst (queue_status (serve cs initial))) = min (length cs) 20)"
proof -
  have "processedCount (fst (queue_status (serve cs initial))) = min (length cs) 20"
    if "\<forall>c\<in>set cs. accepted c \<and> c_throws c = never_throws"
    using serve_reference[of initial cs] that by (simp add: queue_status_def initial_def)
  then show ?thesis
    using reachable_invariant[of st] by (auto simp: queue_status_def)
qed

theorem processedCount_is_retained_entries_witness:
  "reachable (serve (replicate 21 (good_call ''a'')) initial) \<and>
   length (replicate 21 (good_call ''a'')) = 21 \<and>
   processedCount (fst (queue_status (serve (replicate 21 (good_call ''a'')) initial))) = 20 \<and>
   length (processedEvents (serve (replicate 21 (good_call ''a'')) initial)) = 20"
proof -
  let ?cs = "replicate 21 (good_call ''a'')"
  have a: "\<forall>c\<in>set ?cs. accepted c \<and> c_throws c = never_throws"
    using good_call_accepted by auto
  then have r: "reachable (serve ?cs initial)"
    using reachable_serve[OF reachable.at_start, of ?cs] by blast
  show ?thesis
    using a r processedCount_is_retained_entries[of "serve ?cs initial" ?cs]
    by simp
qed

end
